theory Spec2Isabelle
  imports Main "HOL-Library.Multiset"
begin

section \<open>Errors\<close>

text \<open>
  The exceptions the modelled code can raise. \<open>ValueError\<close> is raised by
  \<open>SchedulerFactory.create_scheduler\<close> on an unknown algorithm name and by
  \<open>list.remove\<close> on an absent element; \<open>ResourceError\<close> stands for whatever
  \<open>SystemResources.release_memory\<close> raises.
\<close>

datatype error = ValueError string | ResourceError string

section \<open>comunicacion.py: MessageQueue\<close>

text \<open>
  A message is the dict \<open>{"sender": ..., "content": ..., "timestamp": ...}\<close>. The
  timestamp is \<open>time.time()\<close>; the clock reading is an argument of the model.
\<close>

record 'ts message =
  sender :: int
  content :: string
  timestamp :: 'ts

text \<open>
  \<open>process_queues\<close> is a dict from pid to a \<open>queue.Queue\<close>: an unbounded FIFO,
  \<open>put\<close> appends at the tail, \<open>get\<close> removes the head, \<open>qsize\<close> is its length.
\<close>

record 'ts MessageQueue =
  process_queues :: "int \<rightharpoonup> 'ts message list"

definition MessageQueue_init :: "'ts MessageQueue" where
  "MessageQueue_init = \<lparr>process_queues = Map.empty\<rparr>"

definition create_queue :: "'ts MessageQueue \<Rightarrow> int \<Rightarrow> 'ts MessageQueue" where
  "create_queue mq pid =
     (if process_queues mq pid = None
      then mq\<lparr>process_queues := (process_queues mq)(pid \<mapsto> [])\<rparr>
      else mq)"

definition send_message ::
  "'ts MessageQueue \<Rightarrow> 'ts \<Rightarrow> int \<Rightarrow> int \<Rightarrow> string \<Rightarrow> 'ts MessageQueue \<times> bool" where
  "send_message mq now sender_pid receiver_pid msg =
     (case process_queues mq receiver_pid of
        None \<Rightarrow> (mq, False)
      | Some q \<Rightarrow>
          (let formatted_message = \<lparr>sender = sender_pid, content = msg, timestamp = now\<rparr>
           in (mq\<lparr>process_queues := (process_queues mq)(receiver_pid \<mapsto> q @ [formatted_message])\<rparr>,
               True)))"

definition receive_message ::
  "'ts MessageQueue \<Rightarrow> int \<Rightarrow> 'ts MessageQueue \<times> 'ts message option" where
  "receive_message mq pid =
     (case process_queues mq pid of
        None \<Rightarrow> (mq, None)
      | Some [] \<Rightarrow> (mq, None)
      | Some (m # q) \<Rightarrow> (mq\<lparr>process_queues := (process_queues mq)(pid \<mapsto> q)\<rparr>, Some m))"

definition get_queue_size :: "'ts MessageQueue \<Rightarrow> int \<Rightarrow> int" where
  "get_queue_size mq pid =
     (case process_queues mq pid of None \<Rightarrow> 0 | Some q \<Rightarrow> int (length q))"

section \<open>comunicacion.py: Semaphore and ProducerConsumer\<close>

text \<open>
  \<open>produce\<close> and \<open>consume\<close> never call \<open>acquire\<close> or \<open>release\<close>: they read and
  write the counter \<open>value\<close> of each semaphore directly, so a semaphore is its counter
  here.
\<close>

record Semaphore =
  "value" :: int

text \<open>
  The entries of \<open>logs\<close>. The source appends formatted strings; an entry keeps the
  data the string is formatted from:
  \<^item> \<open>Producer_blocked\<close> is "Productor bloqueado: buffer lleno";
  \<^item> \<open>Produced item n size\<close> is "Productor: item 'item' producido -> buffer: n/size";
  \<^item> \<open>Consumer_blocked\<close> is "Consumidor bloqueado: buffer vacio";
  \<^item> \<open>Consumed item n size\<close> is "Consumidor: item 'item' consumido -> buffer: n/size".
\<close>

datatype log_entry =
    Producer_blocked
  | Produced string int int
  | Consumer_blocked
  | Consumed string int int

record ProducerConsumer =
  buffer_size :: int
  buffer :: "string list"
  mutex :: Semaphore
  empty_sem :: Semaphore
  full_sem :: Semaphore
  producer_active :: bool
  consumer_active :: bool
  logs :: "log_entry list"

definition ProducerConsumer_init :: "int \<Rightarrow> ProducerConsumer" where
  "ProducerConsumer_init n =
     \<lparr>buffer_size = n, buffer = [],
      mutex = \<lparr>value = 1\<rparr>, empty_sem = \<lparr>value = n\<rparr>, full_sem = \<lparr>value = 0\<rparr>,
      producer_active = False, consumer_active = False, logs = []\<rparr>"

definition produce :: "ProducerConsumer \<Rightarrow> string \<Rightarrow> ProducerConsumer \<times> bool" where
  "produce pc item =
     (if int (length (buffer pc)) \<ge> buffer_size pc then (pc, False)
      else if value (empty_sem pc) \<le> 0
      then (pc\<lparr>logs := logs pc @ [Producer_blocked]\<rparr>, False)
      else
        (let pc1 = pc\<lparr>empty_sem := \<lparr>value = value (empty_sem pc) - 1\<rparr>\<rparr>;
             pc2 = pc1\<lparr>mutex := \<lparr>value = value (mutex pc1) - 1\<rparr>\<rparr>;
             pc3 = pc2\<lparr>buffer := buffer pc2 @ [item]\<rparr>;
             pc4 = pc3\<lparr>logs := logs pc3 @
                     [Produced item (int (length (buffer pc3))) (buffer_size pc3)]\<rparr>;
             pc5 = pc4\<lparr>mutex := \<lparr>value = value (mutex pc4) + 1\<rparr>\<rparr>;
             pc6 = pc5\<lparr>full_sem := \<lparr>value = value (full_sem pc5) + 1\<rparr>\<rparr>
         in (pc6, True)))"

definition consume :: "ProducerConsumer \<Rightarrow> ProducerConsumer \<times> string option" where
  "consume pc =
     (case buffer pc of
        [] \<Rightarrow> (pc, None)
      | item # rest \<Rightarrow>
          if value (full_sem pc) \<le> 0
          then (pc\<lparr>logs := logs pc @ [Consumer_blocked]\<rparr>, None)
          else
            (let pc1 = pc\<lparr>full_sem := \<lparr>value = value (full_sem pc) - 1\<rparr>\<rparr>;
                 pc2 = pc1\<lparr>mutex := \<lparr>value = value (mutex pc1) - 1\<rparr>\<rparr>;
                 pc3 = pc2\<lparr>buffer := rest\<rparr>;
                 pc4 = pc3\<lparr>logs := logs pc3 @
                         [Consumed item (int (length (buffer pc3))) (buffer_size pc3)]\<rparr>;
                 pc5 = pc4\<lparr>mutex := \<lparr>value = value (mutex pc4) + 1\<rparr>\<rparr>;
                 pc6 = pc5\<lparr>empty_sem := \<lparr>value = value (empty_sem pc5) + 1\<rparr>\<rparr>
             in (pc6, Some item)))"

definition get_logs :: "ProducerConsumer \<Rightarrow> log_entry list" where
  "get_logs pc = logs pc"

text \<open>A call of the driver on the buffer, and a sequence of such calls.\<close>

datatype pc_call = Produce string | Consume

fun pc_step :: "ProducerConsumer \<Rightarrow> pc_call \<Rightarrow> ProducerConsumer" where
  "pc_step pc (Produce item) = fst (produce pc item)"
| "pc_step pc Consume = fst (consume pc)"

definition pc_run :: "ProducerConsumer \<Rightarrow> pc_call list \<Rightarrow> ProducerConsumer" where
  "pc_run pc calls = foldl pc_step pc calls"

section \<open>procesos.py: Process and ProcessManager\<close>

text \<open>
  The field \<open>state\<close> of a process is one of the strings "ready", "running", "waiting",
  "terminated"; nothing in the sources assigns any other value.
\<close>

datatype pstate = Ready | Running | Waiting | Terminated

record Process =
  pid :: int
  state :: pstate
  priority :: int
  memory :: int
  burst_time :: int
  resources_p :: "string list"
  arrival_time :: int

definition Process_init :: "int \<Rightarrow> int \<Rightarrow> int \<Rightarrow> int \<Rightarrow> Process" where
  "Process_init pid' priority' memory' burst_time' =
     \<lparr>pid = pid', state = Ready, priority = priority', memory = memory',
      burst_time = burst_time', resources_p = [], arrival_time = 0\<rparr>"

text \<open>
  Process objects are mutable and shared: the same object sits in \<open>processes\<close>, in
  \<open>ready_queue\<close> and in the scheduler's \<open>current_process\<close>. The only place that
  builds a \<open>Process\<close> is \<open>create_process\<close>, which appends it to \<open>processes\<close>, and
  nothing ever removes from that list; so \<open>processes\<close> is the store of the objects and a
  reference to a process is its position there. \<open>ready_queue\<close> and \<open>current_process\<close>
  hold references.
\<close>

record ProcessManager =
  processes :: "Process list"
  ready_queue :: "nat list"

definition ProcessManager_init :: ProcessManager where
  "ProcessManager_init = \<lparr>processes = [], ready_queue = []\<rparr>"

definition create_process :: "ProcessManager \<Rightarrow> int \<Rightarrow> int \<Rightarrow> int \<Rightarrow> ProcessManager \<times> nat" where
  "create_process pm priority' memory' burst_time' =
     (let pid' = int (length (processes pm)) + 1;
          new_process = Process_init pid' priority' memory' burst_time';
          r = length (processes pm)
      in (pm\<lparr>processes := processes pm @ [new_process],
               ready_queue := ready_queue pm @ [r]\<rparr>, r))"

section \<open>recursos.py: SystemResources\<close>

text \<open>
  Modelled from the spec: the module \<open>recursos\<close> (class \<open>SystemResources\<close>) is
  imported by the scheduler and the driver and is not among the sources. The driver
  reads the attributes \<open>cpu_available\<close>, \<open>total_memory\<close> and \<open>available_memory\<close>; the
  scheduler writes \<open>cpu_available\<close> and calls \<open>release_memory(pid, memory)\<close>. The
  spec says that memory is debited on creation and credited on termination, that
  assignment does not check the amount (the caller does), and that releasing an amount
  not previously assigned to that pid fails loudly. \<open>assigned\<close> is the ledger of
  assignments that this needs.

  The scheduler functions below take \<open>release_memory\<close> as an argument \<open>rel\<close>, so that
  what is proved of them for every \<open>rel\<close> does not depend on this model.
\<close>

record SystemResources =
  cpu_available :: bool
  total_memory :: int
  available_memory :: int
  assigned :: "(int \<times> int) list"

definition SystemResources_init :: "int \<Rightarrow> SystemResources" where
  "SystemResources_init total_mb =
     \<lparr>cpu_available = True, total_memory = total_mb, available_memory = total_mb,
      assigned = []\<rparr>"

definition assign_memory :: "SystemResources \<Rightarrow> int \<Rightarrow> int \<Rightarrow> SystemResources" where
  "assign_memory res pid' amount =
     res\<lparr>available_memory := available_memory res - amount,
         assigned := assigned res @ [(pid', amount)]\<rparr>"

definition release_memory :: "SystemResources \<Rightarrow> int \<Rightarrow> int \<Rightarrow> error + SystemResources" where
  "release_memory res pid' amount =
     (if (pid', amount) \<in> set (assigned res)
      then Inr (res\<lparr>available_memory := available_memory res + amount,
                    assigned := remove1 (pid', amount) (assigned res)\<rparr>)
      else Inl (ResourceError ''release of memory that was not assigned''))"

section \<open>planificador.py: the schedulers\<close>

datatype algorithm = FCFS | SJF | Priority | RoundRobin

text \<open>
  One record for the four scheduler classes; \<open>kind\<close> is the class of the object.
  \<open>quantum\<close> and \<open>current_quantum\<close> are attributes of \<open>RoundRobinScheduler\<close> only: the
  other classes neither have nor read them, and their constructors leave them 0 here.
\<close>

record Scheduler =
  process_manager :: ProcessManager
  resources :: SystemResources
  current_process :: "nat option"
  name :: string
  time :: int
  kind :: algorithm
  quantum :: int
  current_quantum :: int

datatype event =
    Idle
  | Process_started nat
  | Process_completed nat
  | Process_running nat
  | Process_preempted nat

text \<open>The process a reference points to, and assignment to an attribute of it.\<close>

definition proc :: "Scheduler \<Rightarrow> nat \<Rightarrow> Process" where
  "proc s r = processes (process_manager s) ! r"

definition update_proc :: "nat \<Rightarrow> (Process \<Rightarrow> Process) \<Rightarrow> Scheduler \<Rightarrow> Scheduler" where
  "update_proc r f s =
     s\<lparr>process_manager := (process_manager s)
        \<lparr>processes := (processes (process_manager s))[r := f (processes (process_manager s) ! r)]\<rparr>\<rparr>"

definition set_cpu_available :: "bool \<Rightarrow> Scheduler \<Rightarrow> Scheduler" where
  "set_cpu_available b s = s\<lparr>resources := (resources s)\<lparr>cpu_available := b\<rparr>\<rparr>"

definition set_ready_queue :: "nat list \<Rightarrow> Scheduler \<Rightarrow> Scheduler" where
  "set_ready_queue q s = s\<lparr>process_manager := (process_manager s)\<lparr>ready_queue := q\<rparr>\<rparr>"

text \<open>Decimal text of an integer, as \<open>str\<close> and f-strings give it.\<close>

function str_nat :: "nat \<Rightarrow> string" where
  "str_nat n =
     (if n < 10 then [char_of (48 + n)] else str_nat (n div 10) @ [char_of (48 + n mod 10)])"
  by pat_completeness auto
termination
  by (relation "measure id") auto

declare str_nat.simps [simp del]

definition str_int :: "int \<Rightarrow> string" where
  "str_int i = (if i < 0 then CHR ''-'' # str_nat (nat (- i)) else str_nat (nat i))"

text \<open>
  The constructors. \<open>Scheduler_init\<close> is the constructor of the base class, which
  every subclass calls first; the base class has no selection of its own, and each
  subclass sets its \<open>kind\<close>.
\<close>

definition Scheduler_init :: "ProcessManager \<Rightarrow> SystemResources \<Rightarrow> Scheduler" where
  "Scheduler_init pm res =
     \<lparr>process_manager = pm, resources = res, current_process = None,
      name = ''Base Scheduler'', time = 0, kind = FCFS, quantum = 0, current_quantum = 0\<rparr>"

definition FCFSScheduler_init :: "ProcessManager \<Rightarrow> SystemResources \<Rightarrow> Scheduler" where
  "FCFSScheduler_init pm res =
     (Scheduler_init pm res)\<lparr>name := ''First-Come, First-Served (FCFS)'', kind := FCFS\<rparr>"

definition SJFScheduler_init :: "ProcessManager \<Rightarrow> SystemResources \<Rightarrow> Scheduler" where
  "SJFScheduler_init pm res =
     (Scheduler_init pm res)\<lparr>name := ''Shortest Job First (SJF)'', kind := SJF\<rparr>"

definition PriorityScheduler_init :: "ProcessManager \<Rightarrow> SystemResources \<Rightarrow> Scheduler" where
  "PriorityScheduler_init pm res =
     (Scheduler_init pm res)\<lparr>name := ''Priority Scheduler'', kind := Priority\<rparr>"

definition RoundRobinScheduler_init ::
  "ProcessManager \<Rightarrow> SystemResources \<Rightarrow> int \<Rightarrow> Scheduler" where
  "RoundRobinScheduler_init pm res quantum' =
     (Scheduler_init pm res)
       \<lparr>name := ''Round Robin (Quantum: '' @ str_int quantum' @ '')'', kind := RoundRobin,
        quantum := quantum', current_quantum := 0\<rparr>"

subsection \<open>select_next_process\<close>

text \<open>
  Python's \<open>min(xs, key=k)\<close> on a non-empty list: the first element of least key
  (a later element replaces the candidate only when its key is strictly smaller).
\<close>

fun min_key :: "('a \<Rightarrow> int) \<Rightarrow> 'a \<Rightarrow> 'a list \<Rightarrow> 'a" where
  "min_key k best [] = best"
| "min_key k best (x # xs) = min_key k (if k x < k best then x else best) xs"

definition first_ready :: "Scheduler \<Rightarrow> nat option" where
  "first_ready s = find (\<lambda>r. state (proc s r) = Ready) (ready_queue (process_manager s))"

definition FCFSScheduler_select_next_process :: "Scheduler \<Rightarrow> nat option" where
  "FCFSScheduler_select_next_process s = first_ready s"

definition SJFScheduler_select_next_process :: "Scheduler \<Rightarrow> nat option" where
  "SJFScheduler_select_next_process s =
     (if ready_queue (process_manager s) = [] then None
      else
        (case filter (\<lambda>r. state (proc s r) = Ready) (ready_queue (process_manager s)) of
           [] \<Rightarrow> None
         | p # ps \<Rightarrow> Some (min_key (\<lambda>r. burst_time (proc s r)) p ps)))"

definition PriorityScheduler_select_next_process :: "Scheduler \<Rightarrow> nat option" where
  "PriorityScheduler_select_next_process s =
     (if ready_queue (process_manager s) = [] then None
      else
        (case filter (\<lambda>r. state (proc s r) = Ready) (ready_queue (process_manager s)) of
           [] \<Rightarrow> None
         | p # ps \<Rightarrow> Some (min_key (\<lambda>r. priority (proc s r)) p ps)))"

text \<open>
  \<open>list.remove(x)\<close> followed by \<open>list.append(x)\<close> on the ready queue: \<open>remove\<close>
  deletes the first occurrence and raises \<open>ValueError\<close> when there is none. A process
  has no \<open>__eq__\<close>, so the comparison is by identity, that is by reference.
\<close>

definition move_to_tail :: "nat \<Rightarrow> Scheduler \<Rightarrow> error + Scheduler" where
  "move_to_tail c s =
     (if c \<in> set (ready_queue (process_manager s))
      then Inr (set_ready_queue (remove1 c (ready_queue (process_manager s)) @ [c]) s)
      else Inl (ValueError ''list.remove(x): x not in list''))"

text \<open>
  The Round Robin selection writes to the scheduler, so every selection returns the
  scheduler with its result. When a call raises, the scheduler is returned as the
  assignments made before the raise left it.
\<close>

definition RoundRobinScheduler_preempt_in_select :: "Scheduler \<Rightarrow> Scheduler \<times> error option" where
  "RoundRobinScheduler_preempt_in_select s =
     (case current_process s of
        None \<Rightarrow> (s, None)
      | Some c \<Rightarrow>
          if state (proc s c) = Running \<and> current_quantum s \<ge> quantum s
          then
            (let s1 = update_proc c (\<lambda>p. p\<lparr>state := Ready\<rparr>) s
             in case move_to_tail c s1 of
                  Inl e \<Rightarrow> (s1, Some e)
                | Inr s2 \<Rightarrow>
                    ((set_cpu_available True s2)\<lparr>current_quantum := 0, current_process := None\<rparr>,
                     None))
          else (s, None))"

definition RoundRobinScheduler_select_next_process ::
  "Scheduler \<Rightarrow> Scheduler \<times> (error + nat option)" where
  "RoundRobinScheduler_select_next_process s =
     (if ready_queue (process_manager s) = [] then (s, Inr None)
      else
        (case RoundRobinScheduler_preempt_in_select s of
           (s1, Some e) \<Rightarrow> (s1, Inl e)
         | (s1, None) \<Rightarrow>
             (case first_ready s1 of
                Some r \<Rightarrow> (s1\<lparr>current_quantum := 0\<rparr>, Inr (Some r))
              | None \<Rightarrow> (s1, Inr None))))"

definition select_next_process :: "Scheduler \<Rightarrow> Scheduler \<times> (error + nat option)" where
  "select_next_process s =
     (case kind s of
        FCFS \<Rightarrow> (s, Inr (FCFSScheduler_select_next_process s))
      | SJF \<Rightarrow> (s, Inr (SJFScheduler_select_next_process s))
      | Priority \<Rightarrow> (s, Inr (PriorityScheduler_select_next_process s))
      | RoundRobin \<Rightarrow> RoundRobinScheduler_select_next_process s)"

subsection \<open>execute_cycle\<close>

text \<open>
  The branch of \<open>Scheduler.execute_cycle\<close> taken when no process is running: select,
  and give the CPU to the selected process if the CPU is free.
\<close>

definition start_next_process :: "Scheduler \<Rightarrow> Scheduler \<times> (error + event)" where
  "start_next_process s =
     (case select_next_process s of
        (s1, Inl e) \<Rightarrow> (s1, Inl e)
      | (s1, Inr None) \<Rightarrow> (s1, Inr Idle)
      | (s1, Inr (Some n)) \<Rightarrow>
          if cpu_available (resources s1)
          then
            ((update_proc n (\<lambda>p. p\<lparr>state := Running\<rparr>) (set_cpu_available False s1))
               \<lparr>current_process := Some n\<rparr>,
             Inr (Process_started n))
          else (s1, Inr Idle))"

text \<open>
  The branch taken when the current process is running: one tick of its burst, and
  its completion when none is left. \<open>rel\<close> is \<open>SystemResources.release_memory\<close>;
  when it raises, the resources are taken to be as it found them.
\<close>

definition run_current_process ::
  "(SystemResources \<Rightarrow> int \<Rightarrow> int \<Rightarrow> error + SystemResources) \<Rightarrow> nat \<Rightarrow> Scheduler
     \<Rightarrow> Scheduler \<times> (error + event)" where
  "run_current_process rel c s =
     (let s1 = update_proc c (\<lambda>p. p\<lparr>burst_time := burst_time p - 1\<rparr>) s
      in if burst_time (proc s1 c) \<le> 0
         then
           (let s2 = update_proc c (\<lambda>p. p\<lparr>state := Terminated\<rparr>) s1;
                s3 = set_cpu_available True s2
            in case rel (resources s3) (pid (proc s3 c)) (memory (proc s3 c)) of
                 Inl e \<Rightarrow> (s3, Inl e)
               | Inr res' \<Rightarrow>
                   (s3\<lparr>resources := res', current_process := None\<rparr>, Inr (Process_completed c)))
         else (s1, Inr (Process_running c)))"

text \<open>
  \<open>Scheduler.execute_cycle\<close>. Its second \<open>if\<close> is the negation of the first, so the
  closing \<open>return {"event": "idle"}\<close> of the source is never reached.
\<close>

definition Scheduler_execute_cycle ::
  "(SystemResources \<Rightarrow> int \<Rightarrow> int \<Rightarrow> error + SystemResources) \<Rightarrow> Scheduler
     \<Rightarrow> Scheduler \<times> (error + event)" where
  "Scheduler_execute_cycle rel s0 =
     (let s = s0\<lparr>time := time s0 + 1\<rparr>
      in case current_process s of
           None \<Rightarrow> start_next_process s
         | Some c \<Rightarrow>
             if state (proc s c) \<noteq> Running then start_next_process s
             else run_current_process rel c s)"

text \<open>
  \<open>RoundRobinScheduler.execute_cycle\<close>: the base cycle, then the quantum accounting
  when a process is running after it.
\<close>

definition RoundRobinScheduler_execute_cycle ::
  "(SystemResources \<Rightarrow> int \<Rightarrow> int \<Rightarrow> error + SystemResources) \<Rightarrow> Scheduler
     \<Rightarrow> Scheduler \<times> (error + event)" where
  "RoundRobinScheduler_execute_cycle rel s0 =
     (case Scheduler_execute_cycle rel s0 of
        (s, Inl e) \<Rightarrow> (s, Inl e)
      | (s, Inr result) \<Rightarrow>
          (case current_process s of
             None \<Rightarrow> (s, Inr result)
           | Some c \<Rightarrow>
               if state (proc s c) \<noteq> Running then (s, Inr result)
               else
                 (let s1 = s\<lparr>current_quantum := current_quantum s + 1\<rparr>
                  in if current_quantum s1 \<ge> quantum s1 \<and> burst_time (proc s1 c) > 0
                     then
                       (let s2 = set_cpu_available True (update_proc c (\<lambda>p. p\<lparr>state := Ready\<rparr>) s1)
                        in case move_to_tail c s2 of
                             Inl e \<Rightarrow> (s2, Inl e)
                           | Inr s3 \<Rightarrow>
                               (s3\<lparr>current_process := None, current_quantum := 0\<rparr>,
                                Inr (Process_preempted c)))
                     else (s1, Inr result))))"

definition execute_cycle ::
  "(SystemResources \<Rightarrow> int \<Rightarrow> int \<Rightarrow> error + SystemResources) \<Rightarrow> Scheduler
     \<Rightarrow> Scheduler \<times> (error + event)" where
  "execute_cycle rel s =
     (if kind s = RoundRobin then RoundRobinScheduler_execute_cycle rel s
      else Scheduler_execute_cycle rel s)"

text \<open>
  \<open>n\<close> successive calls of \<open>execute_cycle\<close>, with the outcome of each. A call that
  raises leaves the scheduler as it was at the raise, and the calls go on from there.
\<close>

fun execute_cycles ::
  "(SystemResources \<Rightarrow> int \<Rightarrow> int \<Rightarrow> error + SystemResources) \<Rightarrow> nat \<Rightarrow> Scheduler
     \<Rightarrow> Scheduler \<times> (error + event) list" where
  "execute_cycles rel 0 s = (s, [])"
| "execute_cycles rel (Suc n) s =
     (case execute_cycle rel s of
        (s1, r) \<Rightarrow> (case execute_cycles rel n s1 of (s2, rs) \<Rightarrow> (s2, r # rs)))"



subsection \<open>SchedulerFactory\<close>

text \<open>
  \<open>str.lower\<close>. On a text made of ASCII characters only, it turns the letters A to Z
  into a to z and leaves every other character as it is. On any other text Python
  applies the case mapping of Unicode, which is not modelled: it is the argument
  \<open>unicode_lower\<close>, a function from texts to texts of which nothing is assumed.
\<close>

definition lower_char :: "char \<Rightarrow> char" where
  "lower_char c =
     (if 65 \<le> (of_char c :: nat) \<and> (of_char c :: nat) \<le> 90
      then char_of ((of_char c :: nat) + 32) else c)"

definition is_ascii :: "string \<Rightarrow> bool" where
  "is_ascii cs = list_all (\<lambda>c. (of_char c :: nat) < 128) cs"

definition lower :: "(string \<Rightarrow> string) \<Rightarrow> string \<Rightarrow> string" where
  "lower unicode_lower cs = (if is_ascii cs then map lower_char cs else unicode_lower cs)"

definition create_scheduler ::
  "(string \<Rightarrow> string) \<Rightarrow> string \<Rightarrow> ProcessManager \<Rightarrow> SystemResources \<Rightarrow> int
     \<Rightarrow> error + Scheduler" where
  "create_scheduler unicode_lower algorithm' pm res quantum' =
     (let a = lower unicode_lower algorithm'
      in if a = ''fcfs'' then Inr (FCFSScheduler_init pm res)
         else if a = ''sjf'' then Inr (SJFScheduler_init pm res)
         else if a = ''priority'' then Inr (PriorityScheduler_init pm res)
         else if a = ''round_robin'' then Inr (RoundRobinScheduler_init pm res quantum')
         else Inl (ValueError (''Algoritmo desconocido: '' @ a)))"

section \<open>Invariants\<close>

text \<open>
  The counters of the bounded buffer agree with its content: the two slot counters add
  up to the capacity, \<open>full\<close> counts the items, \<open>empty\<close> is not negative and the
  mutex is free between calls.
\<close>

definition pc_inv :: "ProducerConsumer \<Rightarrow> bool" where
  "pc_inv pc \<longleftrightarrow>
     value (empty_sem pc) + value (full_sem pc) = buffer_size pc \<and>
     value (full_sem pc) = int (length (buffer pc)) \<and>
     0 \<le> value (empty_sem pc) \<and>
     value (mutex pc) = 1"

abbreviation procs :: "Scheduler \<Rightarrow> Process list" where
  "procs s \<equiv> processes (process_manager s)"

abbreviation queue :: "Scheduler \<Rightarrow> nat list" where
  "queue s \<equiv> ready_queue (process_manager s)"

text \<open>The current process exists and is running: the test that opens \<open>execute_cycle\<close>.\<close>

definition is_running :: "Scheduler \<Rightarrow> bool" where
  "is_running s = (case current_process s of None \<Rightarrow> False | Some c \<Rightarrow> state (proc s c) = Running)"





text \<open>
  The states the scheduler never leaves by itself, and what a call keeps: the content
  of the ready queue, and the state of every process that is terminated or waiting.
\<close>

definition frozen :: "pstate \<Rightarrow> bool" where
  "frozen st \<longleftrightarrow> st = Terminated \<or> st = Waiting"

definition keeps :: "Scheduler \<Rightarrow> Scheduler \<Rightarrow> bool" where
  "keeps s s' \<longleftrightarrow>
     mset (ready_queue (process_manager s')) = mset (ready_queue (process_manager s)) \<and>
     (\<forall>i. frozen (state (proc s i)) \<longrightarrow> state (proc s' i) = state (proc s i))"

section \<open>Scenarios\<close>


definition fcfs_pair :: "int \<Rightarrow> int \<Rightarrow> int \<Rightarrow> int \<Rightarrow> int \<Rightarrow> Scheduler" where
  "fcfs_pair priority1 memory1 priority2 memory2 total_mb =
     (case create_process ProcessManager_init priority1 memory1 3 of
        (pm1, p1) \<Rightarrow>
          (case create_process pm1 priority2 memory2 2 of
             (pm2, p2) \<Rightarrow>
               FCFSScheduler_init pm2
                 (assign_memory
                    (assign_memory (SystemResources_init total_mb) (pid (processes pm2 ! p1)) memory1)
                    (pid (processes pm2 ! p2)) memory2)))"


section \<open>Properties of the mailbox system\<close>

text \<open>
  C9. Sending to a receiver that has no mailbox returns \<open>False\<close> and leaves the
  mailbox system as it was, whoever the sender is: no mailbox is created for the
  receiver.
\<close>

theorem send_message_no_mailbox:
  "process_queues mq receiver_pid = None \<Longrightarrow>
     send_message mq now sender_pid receiver_pid msg = (mq, False)"
  by (simp add: send_message_def)

theorem send_message_no_mailbox_witness:
  "process_queues (create_queue (MessageQueue_init :: nat MessageQueue) 1) 2 = None \<and>
   send_message (create_queue (MessageQueue_init :: nat MessageQueue) 1) 7 1 2 ''x''
     = (create_queue MessageQueue_init 1, False) \<and>
   process_queues
     (fst (send_message (create_queue (MessageQueue_init :: nat MessageQueue) 1) 7 1 2 ''x'')) 2
     = None"
  using send_message_no_mailbox
          [of "create_queue (MessageQueue_init :: nat MessageQueue) 1" 2 7 1 "''x''"]
  by (simp add: create_queue_def MessageQueue_init_def)

text \<open>
  C8. For a pid \<open>p\<close> whose mailbox holds the messages \<open>q\<close>: a send appends the new
  message at the tail; a receive returns the head and removes it, so that the size goes
  down by one, and on an empty mailbox it returns nothing and changes nothing (it is a
  plain function: it does not wait). In particular, starting from an empty mailbox of
  \<open>p\<close>, after sending "x" and then "y" from pid 1 the receives yield "x", then "y",
  then nothing, and the sizes are 2, 1, 0.
\<close>

theorem mailbox_fifo:
  assumes "process_queues mq p = Some q"
  shows
    "send_message mq now s p c =
       (mq\<lparr>process_queues :=
             (process_queues mq)(p \<mapsto> q @ [\<lparr>sender = s, content = c, timestamp = now\<rparr>])\<rparr>,
        True) \<and>
     receive_message mq p =
       (case q of
          [] \<Rightarrow> (mq, None)
        | m # q' \<Rightarrow> (mq\<lparr>process_queues := (process_queues mq)(p \<mapsto> q')\<rparr>, Some m)) \<and>
     get_queue_size mq p = int (length q) \<and>
     get_queue_size (fst (receive_message mq p)) p =
       (case q of [] \<Rightarrow> 0 | m # q' \<Rightarrow> get_queue_size mq p - 1) \<and>
     (let mq0 = mq\<lparr>process_queues := (process_queues mq)(p \<mapsto> [])\<rparr>;
          (mq1, ok1) = send_message mq0 t1 1 p ''x'';
          (mq2, ok2) = send_message mq1 t2 1 p ''y'';
          (mq3, r1) = receive_message mq2 p;
          (mq4, r2) = receive_message mq3 p;
          (mq5, r3) = receive_message mq4 p
      in ok1 \<and> ok2 \<and>
         r1 = Some \<lparr>sender = 1, content = ''x'', timestamp = t1\<rparr> \<and>
         r2 = Some \<lparr>sender = 1, content = ''y'', timestamp = t2\<rparr> \<and>
         r3 = None \<and> mq5 = mq4 \<and>
         get_queue_size mq2 p = 2 \<and> get_queue_size mq3 p = 1 \<and> get_queue_size mq4 p = 0)"
  using assms
  by (cases q) (simp_all add: send_message_def receive_message_def get_queue_size_def)

theorem mailbox_fifo_witness:
  "process_queues
     (fst (send_message (create_queue (MessageQueue_init :: nat MessageQueue) 2) 5 1 2 ''w'')) 2
     = Some [\<lparr>sender = 1, content = ''w'', timestamp = 5\<rparr>] \<and>
   snd (receive_message
     (fst (send_message (create_queue (MessageQueue_init :: nat MessageQueue) 2) 5 1 2 ''w'')) 2)
     = Some \<lparr>sender = 1, content = ''w'', timestamp = 5\<rparr> \<and>
   get_queue_size (fst (receive_message
     (fst (send_message (create_queue (MessageQueue_init :: nat MessageQueue) 2) 5 1 2 ''w'')) 2)) 2
     = 0"
  using mailbox_fifo
          [of "fst (send_message (create_queue (MessageQueue_init :: nat MessageQueue) 2) 5 1 2 ''w'')"
              2 "[\<lparr>sender = 1, content = ''w'', timestamp = 5\<rparr>]" 6 1 "''z''" 7 8]
  by (simp add: create_queue_def MessageQueue_init_def send_message_def get_queue_size_def)

section \<open>Properties of the bounded buffer\<close>

lemma pc_inv_init: "0 \<le> n \<Longrightarrow> pc_inv (ProducerConsumer_init n)"
  by (simp add: pc_inv_def ProducerConsumer_init_def)

lemma pc_inv_produce:
  "pc_inv pc \<Longrightarrow>
     pc_inv (fst (produce pc item)) \<and> buffer_size (fst (produce pc item)) = buffer_size pc"
  by (auto simp: pc_inv_def produce_def Let_def)

lemma pc_inv_consume:
  "pc_inv pc \<Longrightarrow> pc_inv (fst (consume pc)) \<and> buffer_size (fst (consume pc)) = buffer_size pc"
  by (auto simp: pc_inv_def consume_def Let_def split: list.splits)

lemma pc_inv_step:
  "pc_inv pc \<Longrightarrow> pc_inv (pc_step pc c) \<and> buffer_size (pc_step pc c) = buffer_size pc"
  by (cases c) (simp_all add: pc_inv_produce pc_inv_consume)

lemma pc_inv_run:
  "pc_inv pc \<Longrightarrow> pc_inv (pc_run pc cs) \<and> buffer_size (pc_run pc cs) = buffer_size pc"
  unfolding pc_run_def
  by (induction cs arbitrary: pc) (simp_all add: pc_inv_step)

text \<open>
  C3. For a buffer of capacity \<open>n\<close> (not negative), after any sequence of \<open>produce\<close>
  and \<open>consume\<close> calls: the empty and the full slots add up to \<open>n\<close>, the buffer holds
  at most \<open>n\<close> items, and the full slots count the items in the buffer.
\<close>

theorem bounded_buffer_counts:
  assumes "0 \<le> n"
  shows
    "value (empty_sem (pc_run (ProducerConsumer_init n) cs)) +
       value (full_sem (pc_run (ProducerConsumer_init n) cs)) = n \<and>
     int (length (buffer (pc_run (ProducerConsumer_init n) cs))) \<le> n \<and>
     value (full_sem (pc_run (ProducerConsumer_init n) cs)) =
       int (length (buffer (pc_run (ProducerConsumer_init n) cs)))"
proof -
  have "buffer_size (ProducerConsumer_init n) = n"
    by (simp add: ProducerConsumer_init_def)
  with pc_inv_run [OF pc_inv_init [OF assms], of cs]
  have "pc_inv (pc_run (ProducerConsumer_init n) cs)"
    and "buffer_size (pc_run (ProducerConsumer_init n) cs) = n"
    by simp_all
  then show ?thesis
    by (auto simp: pc_inv_def)
qed

theorem bounded_buffer_counts_witness:
  "(0::int) \<le> 2 \<and>
   buffer (pc_run (ProducerConsumer_init 2)
             [Produce ''a'', Produce ''b'', Produce ''c'', Consume]) = [''b''] \<and>
   value (empty_sem (pc_run (ProducerConsumer_init 2)
             [Produce ''a'', Produce ''b'', Produce ''c'', Consume])) = 1 \<and>
   value (full_sem (pc_run (ProducerConsumer_init 2)
             [Produce ''a'', Produce ''b'', Produce ''c'', Consume])) = 1"
  using bounded_buffer_counts
          [of 2 "[Produce ''a'', Produce ''b'', Produce ''c'', Consume]"]
  by (simp add: pc_run_def ProducerConsumer_init_def produce_def consume_def Let_def)

text \<open>
  C7. A buffer of capacity 2 that starts empty: producing "a" and "b" succeeds; a
  third \<open>produce\<close> returns \<open>False\<close> and leaves the buffer as it was; \<open>consume\<close> then
  returns "a", the head; and producing "c" after that succeeds.
\<close>

theorem bounded_buffer_capacity_two:
  "(let pc0 = ProducerConsumer_init 2;
        (pc1, r1) = produce pc0 ''a'';
        (pc2, r2) = produce pc1 ''b'';
        (pc3, r3) = produce pc2 ''c'';
        (pc4, r4) = consume pc3;
        (pc5, r5) = produce pc4 ''c''
    in r1 \<and> r2 \<and> buffer pc2 = [''a'', ''b''] \<and>
       r3 = False \<and> buffer pc3 = [''a'', ''b''] \<and>
       r4 = Some ''a'' \<and> buffer pc4 = [''b''] \<and>
       r5 \<and> buffer pc5 = [''b'', ''c''])"
  by (simp add: ProducerConsumer_init_def produce_def consume_def Let_def)

text \<open>
  C5, at an input where it fails. On a full buffer of capacity 2, \<open>produce\<close> returns
  \<open>False\<close> and the log is what it was before the call; on an empty buffer, \<open>consume\<close>
  returns nothing and the log stays empty. Neither failed attempt is recorded: the
  length test that opens each function returns before the branch that logs
  "Productor bloqueado" or "Consumidor bloqueado".
\<close>

theorem failed_attempts_not_logged:
  "(let pc0 = ProducerConsumer_init 2;
        (pc1, r1) = produce pc0 ''a'';
        (pc2, r2) = produce pc1 ''b'';
        (pc3, r3) = produce pc2 ''c''
    in r3 = False \<and> get_logs pc3 = get_logs pc2 \<and>
       get_logs pc2 = [Produced ''a'' 1 2, Produced ''b'' 2 2]) \<and>
   snd (consume (ProducerConsumer_init 2)) = None \<and>
   get_logs (fst (consume (ProducerConsumer_init 2))) = []"
  by (simp add: ProducerConsumer_init_def produce_def consume_def Let_def get_logs_def)

section \<open>Properties of the schedulers\<close>

subsection \<open>Selection\<close>

lemma min_key_mem: "min_key k b xs \<in> set (b # xs)"
  by (induction xs arbitrary: b) auto

lemma first_ready_Some:
  "first_ready s = Some n \<Longrightarrow> n \<in> set (ready_queue (process_manager s)) \<and> state (proc s n) = Ready"
  by (auto simp: first_ready_def find_Some_iff)

lemma min_key_filter:
  assumes "filter ok xs = p # ps"
  shows "min_key k p ps \<in> set xs \<and> ok (min_key k p ps)"
proof -
  have "min_key k p ps \<in> set (filter ok xs)" using min_key_mem[of k p ps] assms by simp
  then show ?thesis by simp
qed

lemma SJF_select_Some:
  "SJFScheduler_select_next_process s = Some n \<Longrightarrow> n \<in> set (ready_queue (process_manager s)) \<and> state (proc s n) = Ready"
  by (auto simp: SJFScheduler_select_next_process_def split: if_splits list.splits dest: min_key_filter)

lemma Priority_select_Some:
  "PriorityScheduler_select_next_process s = Some n \<Longrightarrow> n \<in> set (ready_queue (process_manager s)) \<and> state (proc s n) = Ready"
  by (auto simp: PriorityScheduler_select_next_process_def split: if_splits list.splits dest: min_key_filter)

lemma proc_simps [simp]:
  "proc (s\<lparr>current_quantum := q\<rparr>) r = proc s r"
  "proc (s\<lparr>current_process := c\<rparr>) r = proc s r"
  "proc (s\<lparr>time := t\<rparr>) r = proc s r"
  "proc (s\<lparr>resources := rs\<rparr>) r = proc s r"
  "proc (set_cpu_available b s) r = proc s r"
  "proc (set_ready_queue q' s) r = proc s r"
  by (simp_all add: proc_def set_cpu_available_def set_ready_queue_def)

lemma RR_select_Some:
  "RoundRobinScheduler_select_next_process s = (s1, Inr (Some n)) \<Longrightarrow>
     n \<in> set (ready_queue (process_manager s1)) \<and> state (proc s1 n) = Ready"
  by (auto simp: RoundRobinScheduler_select_next_process_def split: if_splits prod.splits option.splits
      dest!: first_ready_Some)

lemma select_Some:
  "select_next_process s = (s1, Inr (Some n)) \<Longrightarrow>
     n \<in> set (ready_queue (process_manager s1)) \<and> state (proc s1 n) = Ready"
  by (auto simp: select_next_process_def FCFSScheduler_select_next_process_def
      split: algorithm.splits dest: first_ready_Some SJF_select_Some Priority_select_Some RR_select_Some)

lemma preempt_not_running:
  "\<not> is_running s \<Longrightarrow> RoundRobinScheduler_preempt_in_select s = (s, None)"
  by (auto simp: is_running_def RoundRobinScheduler_preempt_in_select_def split: option.splits)

lemma select_not_running:
  "\<not> is_running s \<Longrightarrow>
     \<exists>q r. select_next_process s = (s\<lparr>current_quantum := q\<rparr>, Inr r)"
proof (cases "kind s")
  case RoundRobin
  assume "\<not> is_running s"
  then show ?thesis using RoundRobin
    apply (simp add: select_next_process_def RoundRobinScheduler_select_next_process_def preempt_not_running split: option.splits)
    by (metis Scheduler.surjective Scheduler.update_convs(8))
qed (auto simp: select_next_process_def intro: exI[of _ "current_quantum s"])



lemma update_proc_simps [simp]:
  "processes (process_manager (update_proc r f s)) = (procs s)[r := f (procs s ! r)]"
  "ready_queue (process_manager (update_proc r f s)) = queue s"
  "current_process (update_proc r f s) = current_process s"
  "resources (update_proc r f s) = resources s"
  "current_quantum (update_proc r f s) = current_quantum s"
  "quantum (update_proc r f s) = quantum s"
  "kind (update_proc r f s) = kind s"
  "time (update_proc r f s) = time s"
  by (simp_all add: update_proc_def)

lemma set_cpu_available_simps [simp]:
  "process_manager (set_cpu_available b s) = process_manager s"
  "current_process (set_cpu_available b s) = current_process s"
  "cpu_available (resources (set_cpu_available b s)) = b"
  "current_quantum (set_cpu_available b s) = current_quantum s"
  "quantum (set_cpu_available b s) = quantum s"
  "kind (set_cpu_available b s) = kind s"
  "time (set_cpu_available b s) = time s"
  by (simp_all add: set_cpu_available_def)

lemma set_ready_queue_simps [simp]:
  "processes (process_manager (set_ready_queue q s)) = procs s"
  "ready_queue (process_manager (set_ready_queue q s)) = q"
  "current_process (set_ready_queue q s) = current_process s"
  "resources (set_ready_queue q s) = resources s"
  "current_quantum (set_ready_queue q s) = current_quantum s"
  "quantum (set_ready_queue q s) = quantum s"
  "kind (set_ready_queue q s) = kind s"
  "time (set_ready_queue q s) = time s"
  by (simp_all add: set_ready_queue_def)


lemma is_running_time: "is_running (s\<lparr>time := t\<rparr>) = is_running s"
  by (simp add: is_running_def split: option.splits)

lemma move_to_tail_Inr:
  "move_to_tail c s = Inr s' \<Longrightarrow> c \<in> set (queue s) \<and> s' = set_ready_queue (remove1 c (queue s) @ [c]) s"
  by (auto simp: move_to_tail_def split: if_splits)

lemma mset_rotate: "c \<in> set q \<Longrightarrow> mset (remove1 c q @ [c]) = mset q"
  by simp


subsection \<open>The invariant is kept by every cycle\<close>




















lemma execute_cycles_Suc:
  "execute_cycles rel (Suc n) s =
     (fst (execute_cycles rel n (fst (execute_cycle rel s))),
      snd (execute_cycle rel s) # snd (execute_cycles rel n (fst (execute_cycle rel s))))"
  by (simp add: case_prod_beta)






subsection \<open>The ready queue and the terminated processes\<close>

lemma keeps_refl: "keeps s s"
  by (simp add: keeps_def)

lemma keeps_trans: "keeps s s' \<Longrightarrow> keeps s' s'' \<Longrightarrow> keeps s s''"
  unfolding keeps_def by metis

lemma keeps_fields [simp]:
  "keeps s (s'\<lparr>current_quantum := q\<rparr>) = keeps s s'"
  "keeps s (s'\<lparr>current_process := c\<rparr>) = keeps s s'"
  "keeps s (s'\<lparr>time := t\<rparr>) = keeps s s'"
  "keeps s (s'\<lparr>resources := rs\<rparr>) = keeps s s'"
  "keeps s (set_cpu_available b s') = keeps s s'"
  "keeps (s\<lparr>time := t\<rparr>) s' = keeps s s'"
  by (simp_all add: keeps_def)

lemma proc_update_proc:
  "proc (update_proc c f s) i = (if i = c \<and> c < length (procs s) then f (proc s c) else proc s i)"
proof (cases "c < length (procs s)")
  case True
  then show ?thesis by (auto simp: proc_def)
next
  case False
  then have "(procs s)[c := f (procs s ! c)] = procs s" by (intro list_update_beyond) simp
  with False show ?thesis by (simp add: proc_def)
qed

lemma keeps_update_proc:
  assumes "keeps s s'" "state (f (proc s' c)) = state (proc s' c) \<or> \<not> frozen (state (proc s' c))"
  shows "keeps s (update_proc c f s')"
proof -
  have "state (proc (update_proc c f s') i) = state (proc s' i)" if "frozen (state (proc s' i))" for i
    using that assms(2) by (auto simp: proc_update_proc)
  with assms(1) show ?thesis unfolding keeps_def by (metis update_proc_simps(2))
qed

lemma keeps_move_to_tail:
  assumes "keeps s s'" "move_to_tail c s' = Inr s''"
  shows "keeps s s''"
proof -
  from move_to_tail_Inr[OF assms(2)] have c: "c \<in> set (queue s')"
    and eq: "s'' = set_ready_queue (remove1 c (queue s') @ [c]) s'" by simp_all
  have "mset (queue s'') = mset (queue s')" unfolding eq using mset_rotate[OF c] by simp
  moreover have "proc s'' i = proc s' i" for i unfolding eq by simp
  ultimately show ?thesis using assms(1) unfolding keeps_def by simp
qed

lemma keeps_preempt_in_select: "keeps s (fst (RoundRobinScheduler_preempt_in_select s))"
  unfolding RoundRobinScheduler_preempt_in_select_def Let_def
  by (auto split: option.splits sum.splits
      intro!: keeps_refl keeps_update_proc simp: frozen_def
      elim!: keeps_move_to_tail[rotated])

lemma keeps_select: "keeps s (fst (select_next_process s))"
  using keeps_preempt_in_select[of s]
  by (auto simp: select_next_process_def RoundRobinScheduler_select_next_process_def keeps_refl
      split: algorithm.splits prod.splits option.splits)

lemma keeps_start_next: "keeps s (fst (start_next_process s))"
proof -
  obtain s1 r where sel: "select_next_process s = (s1, r)" by (cases "select_next_process s")
  with keeps_select[of s] have k: "keeps s s1" by simp
  show ?thesis
  proof (cases r)
    case (Inl e)
    show ?thesis unfolding start_next_process_def sel Inl using k by simp
  next
    case (Inr o')
    show ?thesis
    proof (cases o')
      case None
      show ?thesis unfolding start_next_process_def sel Inr None using k by simp
    next
      case (Some n)
      from select_Some[OF sel[unfolded Inr Some]] have "state (proc s1 n) = Ready" by simp
      then have "keeps s (update_proc n (\<lambda>p. p\<lparr>state := Running\<rparr>) (set_cpu_available False s1))"
        by (intro keeps_update_proc) (simp_all add: k frozen_def)
      then show ?thesis unfolding start_next_process_def sel Inr Some using k by simp
    qed
  qed
qed

lemma keeps_run_current:
  assumes "state (proc s c) = Running"
  shows "keeps s (fst (run_current_process rel c s))"
proof -
  let ?s1 = "update_proc c (\<lambda>p. p\<lparr>burst_time := burst_time p - 1\<rparr>) s"
  let ?s2 = "update_proc c (\<lambda>p. p\<lparr>state := Terminated\<rparr>) ?s1"
  have k1: "keeps s ?s1" by (intro keeps_update_proc keeps_refl) simp
  have "\<not> frozen (state (proc ?s1 c))"
    using assms by (simp add: proc_update_proc frozen_def)
  then have k2: "keeps s ?s2" by (intro keeps_update_proc k1) simp
  show ?thesis unfolding run_current_process_def Let_def
    using k1 k2 by (simp split: sum.splits)
qed

lemma keeps_base: "keeps s (fst (Scheduler_execute_cycle rel s))"
  using keeps_start_next[of "s\<lparr>time := time s + 1\<rparr>"]
    keeps_run_current[of "s\<lparr>time := time s + 1\<rparr>" _ rel]
  by (simp add: Scheduler_execute_cycle_def Let_def split: option.splits)

lemma keeps_rr: "keeps s0 (fst (RoundRobinScheduler_execute_cycle rel s0))"
proof -
  obtain s r where b: "Scheduler_execute_cycle rel s0 = (s, r)"
    by (cases "Scheduler_execute_cycle rel s0")
  with keeps_base[of s0 rel] have k: "keeps s0 s" by simp
  have k2: "keeps s0 (set_cpu_available True (update_proc c (\<lambda>p. p\<lparr>state := Ready\<rparr>) (s\<lparr>current_quantum := q\<rparr>)))"
    if "state (proc s c) = Running" for c q
    using that k by (simp add: keeps_update_proc frozen_def)
  show ?thesis
    unfolding RoundRobinScheduler_execute_cycle_def b Let_def
    using k k2
    by (auto split: sum.splits option.splits elim!: keeps_move_to_tail[rotated])
qed

lemma keeps_execute_cycle: "keeps s (fst (execute_cycle rel s))"
  by (simp add: execute_cycle_def keeps_rr keeps_base)

subsection \<open>Traces\<close>

lemmas sched_eval =
  create_process_def ProcessManager_init_def Process_init_def SystemResources_init_def
  assign_memory_def release_memory_def RoundRobinScheduler_init_def FCFSScheduler_init_def
  Scheduler_init_def execute_cycle_def RoundRobinScheduler_execute_cycle_def
  Scheduler_execute_cycle_def start_next_process_def run_current_process_def
  select_next_process_def RoundRobinScheduler_select_next_process_def
  RoundRobinScheduler_preempt_in_select_def FCFSScheduler_select_next_process_def
  first_ready_def move_to_tail_def update_proc_def set_cpu_available_def set_ready_queue_def
  proc_def Let_def

lemma execute_cycles_add:
  "execute_cycles rel (m + n) s =
     (fst (execute_cycles rel n (fst (execute_cycles rel m s))),
      snd (execute_cycles rel m s) @ snd (execute_cycles rel n (fst (execute_cycles rel m s))))"
proof (induction m arbitrary: s)
  case 0
  show ?case by simp
next
  case (Suc m)
  show ?case unfolding add_Suc execute_cycles_Suc Suc.IH by simp
qed

lemma first_ready_None_filter:
  "first_ready s = None \<Longrightarrow> filter (\<lambda>r. state (proc s r) = Ready) (queue s) = []"
  by (simp add: first_ready_def find_None_iff filter_empty_conv)

lemma select_idle:
  assumes "\<not> is_running s" "first_ready s = None"
  shows "select_next_process s = (s, Inr None)"
proof (cases "kind s")
  case FCFS
  then show ?thesis using assms(2)
    by (simp add: select_next_process_def FCFSScheduler_select_next_process_def)
next
  case SJF
  then show ?thesis using first_ready_None_filter[OF assms(2)]
    by (simp add: select_next_process_def SJFScheduler_select_next_process_def)
next
  case Priority
  then show ?thesis using first_ready_None_filter[OF assms(2)]
    by (simp add: select_next_process_def PriorityScheduler_select_next_process_def)
next
  case RoundRobin
  then show ?thesis using assms(2) preempt_not_running[OF assms(1)]
    by (simp add: select_next_process_def RoundRobinScheduler_select_next_process_def)
qed

lemma first_ready_time: "first_ready (s\<lparr>time := t\<rparr>) = first_ready s"
  by (simp add: first_ready_def)

lemma idle_cycle:
  assumes "\<not> is_running s" "first_ready s = None"
  shows "execute_cycle rel s = (s\<lparr>time := time s + 1\<rparr>, Inr Idle)"
proof -
  let ?s = "s\<lparr>time := time s + 1\<rparr>"
  have nr: "\<not> is_running ?s" and fr: "first_ready ?s = None"
    using assms by (simp_all add: is_running_time first_ready_time)
  have st: "start_next_process ?s = (?s, Inr Idle)"
    unfolding start_next_process_def select_idle[OF nr fr] by simp
  have base: "Scheduler_execute_cycle rel s = (?s, Inr Idle)"
    using nr st by (auto simp: Scheduler_execute_cycle_def Let_def is_running_def split: option.splits)
  have "RoundRobinScheduler_execute_cycle rel s = (?s, Inr Idle)"
    unfolding RoundRobinScheduler_execute_cycle_def base using nr
    by (auto simp: is_running_def split: option.splits)
  with base show ?thesis by (simp add: execute_cycle_def)
qed

lemma idle_cycles:
  assumes "\<not> is_running s" "first_ready s = None"
  shows "execute_cycles rel n s = (s\<lparr>time := time s + int n\<rparr>, replicate n (Inr Idle))"
  using assms
proof (induction n arbitrary: s)
  case 0
  then show ?case by simp
next
  case (Suc n)
  let ?s = "s\<lparr>time := time s + 1\<rparr>"
  have nr: "\<not> is_running ?s" and fr: "first_ready ?s = None"
    using Suc.prems by (simp_all add: is_running_time first_ready_time)
  show ?case
    unfolding execute_cycles_Suc idle_cycle[OF Suc.prems] fst_conv snd_conv Suc.IH[OF nr fr]
    by (simp add: add.assoc)
qed





lemma fcfs7:
  "snd (execute_cycles release_memory 7 (fcfs_pair pr1 m1 pr2 m2 t)) =
     [Inr (Process_started 0), Inr (Process_running 0), Inr (Process_running 0),
      Inr (Process_completed 0), Inr (Process_started 1), Inr (Process_running 1),
      Inr (Process_completed 1)]"
  by (simp add: fcfs_pair_def sched_eval eval_nat_numeral)

lemma fcfs_states:
  "map (\<lambda>k. let s = fst (execute_cycles release_memory k (fcfs_pair pr1 m1 pr2 m2 t))
             in (state (proc s 0), state (proc s 1))) [0, 1, 2, 3, 4, 5, 6, 7] =
     [(Ready, Ready), (Running, Ready), (Running, Ready), (Running, Ready),
      (Terminated, Ready), (Terminated, Running), (Terminated, Running),
      (Terminated, Terminated)]"
  by (simp add: fcfs_pair_def sched_eval eval_nat_numeral)

lemma fcfs_after7:
  "\<not> is_running (fst (execute_cycles release_memory 7 (fcfs_pair pr1 m1 pr2 m2 t))) \<and>
   first_ready (fst (execute_cycles release_memory 7 (fcfs_pair pr1 m1 pr2 m2 t))) = None"
  by (simp add: fcfs_pair_def sched_eval eval_nat_numeral is_running_def)

lemma proc_time: "proc (s\<lparr>time := t\<rparr>) r = proc s r"
  by (simp add: proc_def)

lemma fcfs_order:
  "state (proc (fst (execute_cycles release_memory n (fcfs_pair pr1 m1 pr2 m2 t))) 1) \<noteq> Ready \<longrightarrow>
   state (proc (fst (execute_cycles release_memory n (fcfs_pair pr1 m1 pr2 m2 t))) 0) = Terminated"
proof (cases "n \<le> 7")
  case True
  then consider "n = 0" | "n = 1" | "n = 2" | "n = 3" | "n = 4" | "n = 5" | "n = 6" | "n = 7"
    by linarith
  then show ?thesis using fcfs_states[of pr1 m1 pr2 m2 t]
    by cases (simp_all add: Let_def)
next
  case False
  then obtain k where n: "n = 7 + k" using le_Suc_ex by (metis nat_le_linear)
  from fcfs_after7[of pr1 m1 pr2 m2 t] fcfs_states[of pr1 m1 pr2 m2 t]
  show ?thesis unfolding n execute_cycles_add
    by (simp add: idle_cycles proc_time Let_def)
qed

lemma start_next_started:
  assumes "\<not> is_running s" "snd (start_next_process s) = Inr (Process_started n)"
  shows "state (proc s n) = Ready"
proof -
  from select_not_running[OF assms(1)] obtain q r where
    sel: "select_next_process s = (s\<lparr>current_quantum := q\<rparr>, Inr r)" by blast
  show ?thesis
  proof (cases r)
    case None
    from assms(2) show ?thesis unfolding start_next_process_def sel[unfolded None] by simp
  next
    case (Some m)
    note sel' = sel[unfolded Some]
    from assms(2) have "m = n" unfolding start_next_process_def sel'
      by (simp split: if_splits)
    with select_Some[OF sel'] show ?thesis by simp
  qed
qed

lemma run_current_not_started:
  "snd (run_current_process rel c s) \<noteq> Inr (Process_started n)"
  unfolding run_current_process_def Let_def by (simp split: sum.splits)

lemma base_started:
  assumes "snd (Scheduler_execute_cycle rel s) = Inr (Process_started n)"
  shows "state (proc s n) = Ready"
proof -
  let ?s = "s\<lparr>time := time s + 1\<rparr>"
  show ?thesis
  proof (cases "is_running ?s")
    case False
    then have "Scheduler_execute_cycle rel s = start_next_process ?s"
      by (auto simp: Scheduler_execute_cycle_def Let_def is_running_def split: option.splits)
    with assms start_next_started[OF False, of n] show ?thesis by simp
  next
    case True
    then obtain c where c: "current_process ?s = Some c" "state (proc ?s c) = Running"
      by (auto simp: is_running_def split: option.splits)
    then have "Scheduler_execute_cycle rel s = run_current_process rel c ?s"
      by (auto simp: Scheduler_execute_cycle_def Let_def)
    with assms run_current_not_started[of rel c ?s n] show ?thesis by simp
  qed
qed

lemma rr_started:
  assumes "snd (RoundRobinScheduler_execute_cycle rel s) = Inr (Process_started n)"
  shows "snd (Scheduler_execute_cycle rel s) = Inr (Process_started n)"
proof -
  obtain s1 r where b: "Scheduler_execute_cycle rel s = (s1, r)"
    by (cases "Scheduler_execute_cycle rel s")
  from assms show ?thesis
    unfolding RoundRobinScheduler_execute_cycle_def b Let_def
    by (auto split: sum.splits option.splits if_splits)
qed

lemma execute_cycle_started:
  "snd (execute_cycle rel s) = Inr (Process_started n) \<Longrightarrow> state (proc s n) = Ready"
  using rr_started[of rel s n] base_started[of rel s n]
  by (auto simp: execute_cycle_def split: if_splits)

lemma keeps_execute_cycles: "keeps s (fst (execute_cycles rel n s))"
proof (induction n arbitrary: s)
  case 0
  show ?case by (simp add: keeps_refl)
next
  case (Suc n)
  from keeps_trans[OF keeps_execute_cycle[of s rel] Suc.IH[of "fst (execute_cycle rel s)"]]
  show ?case unfolding execute_cycles_Suc by simp
qed

subsection \<open>The claims about the schedulers\<close>




text \<open>
  C10. A process that is \<open>Terminated\<close> (or \<open>Waiting\<close>) keeps that state through any
  number of cycles, and the ready queue keeps its content, so the process stays in the
  queue. Every selection, of every algorithm, returns a process of the queue whose
  state is \<open>Ready\<close>, and a cycle only ever starts a process that was \<open>Ready\<close>.
\<close>

theorem terminated_never_selected:
  "(select_next_process s = (s1, Inr (Some n)) \<longrightarrow>
      n \<in> set (queue s1) \<and> state (proc s1 n) = Ready) \<and>
   (snd (execute_cycle rel s) = Inr (Process_started n) \<longrightarrow> state (proc s n) = Ready) \<and>
   mset (queue (fst (select_next_process s))) = mset (queue s) \<and>
   mset (queue (fst (execute_cycles rel k s))) = mset (queue s) \<and>
   (state (proc s i) = Terminated \<or> state (proc s i) = Waiting \<longrightarrow>
      state (proc (fst (execute_cycles rel k s)) i) = state (proc s i))"
  using select_Some[of s s1 n] execute_cycle_started[of rel s n] keeps_execute_cycles[of s rel k]
    keeps_select[of s]
  unfolding keeps_def frozen_def by blast

theorem terminated_never_selected_witness:
  "state (proc (fst (execute_cycles release_memory 4 (fcfs_pair 3 256 3 128 4096))) 0) = Terminated \<and>
   snd (select_next_process (fst (execute_cycles release_memory 4 (fcfs_pair 3 256 3 128 4096))))
     = Inr (Some 1) \<and>
   state (proc (fst (execute_cycles release_memory 4 (fcfs_pair 3 256 3 128 4096))) 1) = Ready \<and>
   snd (execute_cycle release_memory (fst (execute_cycles release_memory 4 (fcfs_pair 3 256 3 128 4096))))
     = Inr (Process_started 1) \<and>
   queue (fst (execute_cycles release_memory 3
            (fst (execute_cycles release_memory 4 (fcfs_pair 3 256 3 128 4096))))) = [0, 1] \<and>
   state (proc (fst (execute_cycles release_memory 3
            (fst (execute_cycles release_memory 4 (fcfs_pair 3 256 3 128 4096))))) 0) = Terminated"
  using terminated_never_selected
          [of "fst (execute_cycles release_memory 4 (fcfs_pair 3 256 3 128 4096))"
              "fst (execute_cycles release_memory 4 (fcfs_pair 3 256 3 128 4096))"
              1 release_memory 3 0]
  by (simp add: fcfs_pair_def sched_eval eval_nat_numeral)

text \<open>
  C6. FCFS with P1 (burst 3) then P2 (burst 2), both ready: the first seven cycles
  start P1, run it twice, complete it, then start P2, run it and complete it. After
  any number of cycles, if P2 has left the state \<open>Ready\<close> (it is running or done)
  then P1 is \<open>Terminated\<close>.
\<close>

theorem fcfs_runs_first_to_completion:
  "snd (execute_cycles release_memory 7 (fcfs_pair pr1 m1 pr2 m2 t)) =
     [Inr (Process_started 0), Inr (Process_running 0), Inr (Process_running 0),
      Inr (Process_completed 0), Inr (Process_started 1), Inr (Process_running 1),
      Inr (Process_completed 1)] \<and>
   state (proc (fst (execute_cycles release_memory 4 (fcfs_pair pr1 m1 pr2 m2 t))) 0) = Terminated \<and>
   (state (proc (fst (execute_cycles release_memory n (fcfs_pair pr1 m1 pr2 m2 t))) 1) \<noteq> Ready \<longrightarrow>
    state (proc (fst (execute_cycles release_memory n (fcfs_pair pr1 m1 pr2 m2 t))) 0) = Terminated)"
  using fcfs7[of pr1 m1 pr2 m2 t] fcfs_states[of pr1 m1 pr2 m2 t] fcfs_order[of n pr1 m1 pr2 m2 t]
  by (simp add: Let_def)

theorem fcfs_runs_first_to_completion_witness:
  "state (proc (fst (execute_cycles release_memory 5 (fcfs_pair 3 256 3 128 4096))) 1) = Running \<and>
   state (proc (fst (execute_cycles release_memory 5 (fcfs_pair 3 256 3 128 4096))) 0) = Terminated"
  using fcfs_runs_first_to_completion [of 3 256 3 128 4096 5]
  by (simp add: fcfs_pair_def sched_eval eval_nat_numeral)




subsection \<open>The factory\<close>

lemma lower_names:
  "lower u ''fcfs'' = ''fcfs''" "lower u ''sjf'' = ''sjf''" "lower u ''priority'' = ''priority''"
  "lower u ''round_robin'' = ''round_robin''" "lower u ''FCFS'' = ''fcfs''" "lower u ''rr'' = ''rr''"
  by code_simp+

text \<open>
  C4, as the code has it. The name is put in lower case first. A name whose lower-case
  form is none of the four raises \<open>ValueError\<close>: no scheduler is returned, and no
  default is chosen. A name whose lower-case form is one of the four, and so each of
  the four names themselves, gives the scheduler of that class.
\<close>

theorem create_scheduler_names:
  "(lower u a \<notin> {''fcfs'', ''sjf'', ''priority'', ''round_robin''} \<longrightarrow>
      create_scheduler u a pm res q = Inl (ValueError (''Algoritmo desconocido: '' @ lower u a))) \<and>
   (lower u a = ''fcfs'' \<longrightarrow> create_scheduler u a pm res q = Inr (FCFSScheduler_init pm res)) \<and>
   (lower u a = ''sjf'' \<longrightarrow> create_scheduler u a pm res q = Inr (SJFScheduler_init pm res)) \<and>
   (lower u a = ''priority'' \<longrightarrow>
      create_scheduler u a pm res q = Inr (PriorityScheduler_init pm res)) \<and>
   (lower u a = ''round_robin'' \<longrightarrow>
      create_scheduler u a pm res q = Inr (RoundRobinScheduler_init pm res q)) \<and>
   create_scheduler u ''fcfs'' pm res q = Inr (FCFSScheduler_init pm res) \<and>
   create_scheduler u ''sjf'' pm res q = Inr (SJFScheduler_init pm res) \<and>
   create_scheduler u ''priority'' pm res q = Inr (PriorityScheduler_init pm res) \<and>
   create_scheduler u ''round_robin'' pm res q = Inr (RoundRobinScheduler_init pm res q) \<and>
   kind (FCFSScheduler_init pm res) = FCFS \<and> kind (SJFScheduler_init pm res) = SJF \<and>
   kind (PriorityScheduler_init pm res) = Priority \<and>
   kind (RoundRobinScheduler_init pm res q) = RoundRobin \<and>
   quantum (RoundRobinScheduler_init pm res q) = q"
  by (simp add: create_scheduler_def Let_def lower_names FCFSScheduler_init_def
        SJFScheduler_init_def PriorityScheduler_init_def RoundRobinScheduler_init_def
        Scheduler_init_def)

theorem create_scheduler_names_witness:
  "lower id ''rr'' \<notin> {''fcfs'', ''sjf'', ''priority'', ''round_robin''} \<and>
   create_scheduler id ''rr'' ProcessManager_init (SystemResources_init 4096) 2
     = Inl (ValueError ''Algoritmo desconocido: rr'') \<and>
   lower id ''FCFS'' = ''fcfs'' \<and>
   create_scheduler id ''FCFS'' ProcessManager_init (SystemResources_init 4096) 2
     = Inr (FCFSScheduler_init ProcessManager_init (SystemResources_init 4096))"
  using create_scheduler_names [of id "''rr''" ProcessManager_init "SystemResources_init 4096" 2]
    create_scheduler_names [of id "''FCFS''" ProcessManager_init "SystemResources_init 4096" 2]
  by (simp add: lower_names)

text \<open>
  C4 as it is stated fails: "FCFS" is not one of the four names, and the factory
  returns the FCFS scheduler for it.
\<close>

theorem create_scheduler_names_counterexample:
  "''FCFS'' \<notin> {''fcfs'', ''sjf'', ''priority'', ''round_robin''} \<and>
   create_scheduler id ''FCFS'' ProcessManager_init (SystemResources_init 4096) 2
     = Inr (FCFSScheduler_init ProcessManager_init (SystemResources_init 4096))"
  by (simp add: create_scheduler_def Let_def lower_names)

end
